theory Spec2Isabelle
  imports Main "HOL-Library.Word"
begin

section \<open>The item service: data\<close>

text \<open>
  The service is one Go file: a struct \<open>Item\<close>, a struct \<open>GoPOS\<close> holding the database
  handle, six gin handlers, and the bootstrap (\<open>serve\<close>, \<open>initDB\<close>). Go's \<open>int\<close> is a
  64-bit two's-complement integer on the 64-bit Linux targets the service is built for,
  so it is a \<open>64 word\<close> read with \<open>sint\<close>. Strings are byte strings.
\<close>

type_synonym go_int = "64 word"

record Item =
  ID :: go_int
  Name :: string
  Price :: go_int

definition zero_Item :: Item where
  "zero_Item = \<lparr>ID = 0, Name = [], Price = 0\<rparr>"

record 'd GoPOS =
  db :: 'd
  port :: string
  host :: string

definition defaultport :: string where
  "defaultport = ''3000''"

definition newGpos :: "'d \<Rightarrow> string \<Rightarrow> string \<Rightarrow> 'd GoPOS" where
  "newGpos d p h = \<lparr>db = d, port = p, host = h\<rparr>"

text \<open>
  A Go slice is either nil or a (possibly empty) sequence; the two differ when
  marshalled to JSON.
\<close>

datatype 'a slice = NilSlice | Slice "'a list"

fun append_slice :: "'a slice \<Rightarrow> 'a \<Rightarrow> 'a slice" where
  "append_slice NilSlice x = Slice [x]"
| "append_slice (Slice xs) x = Slice (xs @ [x])"

subsection \<open>Errors\<close>

text \<open>
  Go error values. \<open>ErrNoRows\<close> is the sentinel \<open>sql.ErrNoRows\<close> the handler compares
  with; \<open>UnmarshalTypeError v f t\<close> is the error of \<open>encoding/json\<close> for a JSON value of
  kind \<open>v\<close> stored into a field \<open>f\<close> of Go type \<open>t\<close> (an empty \<open>f\<close> at top level); every
  other error is carried with its message.
\<close>

datatype error =
    ErrNoRows
  | UnmarshalTypeError string string string
  | ErrorString string

fun Error :: "error \<Rightarrow> string" where
  "Error ErrNoRows = ''sql: no rows in result set''"
| "Error (UnmarshalTypeError v f t) =
     (if f \<noteq> [] then ''json: cannot unmarshal '' @ v @ '' into Go struct field Item.'' @ f @ '' of type '' @ t
      else ''json: cannot unmarshal '' @ v @ '' into Go value of type '' @ t)"
| "Error (ErrorString m) = m"

subsection \<open>Decimal integers\<close>

definition digit_of :: "char \<Rightarrow> nat option" where
  "digit_of c = map_of
     [(CHR ''0'', 0), (CHR ''1'', 1), (CHR ''2'', 2), (CHR ''3'', 3), (CHR ''4'', 4),
      (CHR ''5'', 5), (CHR ''6'', 6), (CHR ''7'', 7), (CHR ''8'', 8), (CHR ''9'', 9)] c"

fun digits_value :: "string \<Rightarrow> nat \<Rightarrow> nat option" where
  "digits_value [] acc = Some acc"
| "digits_value (c # cs) acc =
     (case digit_of c of None \<Rightarrow> None | Some d \<Rightarrow> digits_value cs (acc * 10 + d))"

definition signed_decimal :: "string \<Rightarrow> int option" where
  "signed_decimal s =
     (case s of
        [] \<Rightarrow> None
      | c # cs \<Rightarrow>
          if c = CHR ''-'' then (if cs = [] then None else map_option (\<lambda>n. - int n) (digits_value cs 0))
          else if c = CHR ''+'' then (if cs = [] then None else map_option int (digits_value cs 0))
          else map_option int (digits_value s 0))"

definition ParseInt :: "string \<Rightarrow> go_int option" where
  \<comment> \<open>\<open>strconv.ParseInt(s, 10, 64)\<close>: a sign, decimal digits, and the 64-bit range.\<close>
  "ParseInt s =
     (case signed_decimal s of
        None \<Rightarrow> None
      | Some n \<Rightarrow> if - (2 ^ 63) \<le> n \<and> n < 2 ^ 63 then Some (word_of_int n) else None)"

definition digit_char :: "nat \<Rightarrow> char" where
  "digit_char d = ''0123456789'' ! d"

function format_nat :: "nat \<Rightarrow> string" where
  "format_nat n = (if n < 10 then [digit_char n] else format_nat (n div 10) @ [digit_char (n mod 10)])"
  by pat_completeness auto
termination
  by (relation "measure id") auto

declare format_nat.simps [simp del]

definition FormatInt :: "int \<Rightarrow> string" where
  "FormatInt i = (if i < 0 then CHR ''-'' # format_nat (nat (- i)) else format_nat (nat i))"

subsection \<open>JSON\<close>

text \<open>
  A JSON document after lexing: a number keeps its literal text, since whether it fits
  an \<open>int\<close> is decided when it is stored into a field. An object keeps its members in
  the order of the text, duplicates included.
\<close>

datatype json =
    JNull
  | JBool bool
  | JNumber string
  | JString string
  | JArray "json list"
  | JObject "(string \<times> json) list"

fun kind :: "json \<Rightarrow> string" where
  "kind JNull = ''null''"
| "kind (JBool _) = ''bool''"
| "kind (JNumber _) = ''number''"
| "kind (JString _) = ''string''"
| "kind (JArray _) = ''array''"
| "kind (JObject _) = ''object''"

text \<open>
  The request body as \<open>json.Decoder\<close> sees it: text that is not one JSON value (an empty
  body included) fails with the decoder's error before anything is stored.
\<close>

datatype reqbody = Undecodable string | Decoded json

text \<open>
  The struct tags of \<open>Item\<close>: \<open>json:"id"\<close>, \<open>json:"name"\<close>, \<open>json:"price"\<close>, and no
  \<open>binding\<close> tag on any field. A key of the body selects a field by exact name, else
  by name without regard to ASCII case; any other key is skipped.
\<close>

datatype field = F_ID | F_Name | F_Price

definition Item_fields :: "(string \<times> field) list" where
  "Item_fields = [(''id'', F_ID), (''name'', F_Name), (''price'', F_Price)]"

definition lower :: "char \<Rightarrow> char" where
  "lower c = (case map_of (zip ''ABCDEFGHIJKLMNOPQRSTUVWXYZ'' ''abcdefghijklmnopqrstuvwxyz'') c of
                None \<Rightarrow> c | Some l \<Rightarrow> l)"

definition lookup_field :: "string \<Rightarrow> field option" where
  "lookup_field key =
     (case map_of Item_fields key of
        Some f \<Rightarrow> Some f
      | None \<Rightarrow> map_option snd (find (\<lambda>(n, f). n = map lower key) Item_fields))"

definition store_int :: "string \<Rightarrow> json \<Rightarrow> error + go_int option" where
  \<comment> \<open>A JSON value stored into an \<open>int\<close> field: \<open>Inr None\<close> leaves the field as it is.\<close>
  "store_int f v =
     (case v of
        JNull \<Rightarrow> Inr None
      | JNumber lit \<Rightarrow>
          (case ParseInt lit of
             Some w \<Rightarrow> Inr (Some w)
           | None \<Rightarrow> Inl (UnmarshalTypeError (''number '' @ lit) f ''int''))
      | _ \<Rightarrow> Inl (UnmarshalTypeError (kind v) f ''int''))"

definition store_string :: "string \<Rightarrow> json \<Rightarrow> error + string option" where
  "store_string f v =
     (case v of
        JNull \<Rightarrow> Inr None
      | JString s \<Rightarrow> Inr (Some s)
      | _ \<Rightarrow> Inl (UnmarshalTypeError (kind v) f ''string''))"

fun store_field :: "field \<Rightarrow> json \<Rightarrow> Item \<Rightarrow> error + Item" where
  "store_field F_ID v it =
     (case store_int ''id'' v of Inl e \<Rightarrow> Inl e
      | Inr None \<Rightarrow> Inr it | Inr (Some w) \<Rightarrow> Inr (it\<lparr>ID := w\<rparr>))"
| "store_field F_Name v it =
     (case store_string ''name'' v of Inl e \<Rightarrow> Inl e
      | Inr None \<Rightarrow> Inr it | Inr (Some s) \<Rightarrow> Inr (it\<lparr>Name := s\<rparr>))"
| "store_field F_Price v it =
     (case store_int ''price'' v of Inl e \<Rightarrow> Inl e
      | Inr None \<Rightarrow> Inr it | Inr (Some w) \<Rightarrow> Inr (it\<lparr>Price := w\<rparr>))"

fun decode_object :: "(string \<times> json) list \<Rightarrow> Item \<Rightarrow> error + Item" where
  "decode_object [] it = Inr it"
| "decode_object ((k, v) # kvs) it =
     (case lookup_field k of
        None \<Rightarrow> decode_object kvs it
      | Some f \<Rightarrow>
          (case store_field f v it of
             Inl e \<Rightarrow> Inl e
           | Inr it' \<Rightarrow> decode_object kvs it'))"

definition ShouldBindJSON :: "reqbody \<Rightarrow> Item \<Rightarrow> error + Item" where
  \<comment> \<open>\<open>c.ShouldBindJSON(&item)\<close>: decode the body into the struct, then validate the
      \<open>binding\<close> tags, of which \<open>Item\<close> has none.\<close>
  "ShouldBindJSON b it =
     (case b of
        Undecodable m \<Rightarrow> Inl (ErrorString m)
      | Decoded JNull \<Rightarrow> Inr it
      | Decoded (JObject kvs) \<Rightarrow> decode_object kvs it
      | Decoded v \<Rightarrow> Inl (UnmarshalTypeError (kind v) [] ''main.Item''))"

text \<open>Marshalling, as \<open>c.JSON\<close> does it for the three kinds of value the handlers send.\<close>

definition marshal_Item :: "Item \<Rightarrow> json" where
  "marshal_Item it =
     JObject [(''id'', JNumber (FormatInt (sint (ID it)))),
              (''name'', JString (Name it)),
              (''price'', JNumber (FormatInt (sint (Price it))))]"

fun marshal_items :: "Item slice \<Rightarrow> json" where
  "marshal_items NilSlice = JNull"
| "marshal_items (Slice xs) = JArray (map marshal_Item xs)"

definition H :: "string \<Rightarrow> string \<Rightarrow> json" where
  \<comment> \<open>\<open>gin.H{k: v}\<close> with one string entry.\<close>
  "H k v = JObject [(k, JString v)]"

subsection \<open>Responses\<close>

record response =
  code :: nat
  payload :: "json option"

definition JSON :: "nat \<Rightarrow> json \<Rightarrow> response" where
  "JSON c obj = \<lparr>code = c, payload = Some obj\<rparr>"

definition Status :: "nat \<Rightarrow> response" where
  "Status c = \<lparr>code = c, payload = None\<rparr>"

definition StatusOK :: nat where "StatusOK = 200"
definition StatusCreated :: nat where "StatusCreated = 201"
definition StatusNoContent :: nat where "StatusNoContent = 204"
definition StatusBadRequest :: nat where "StatusBadRequest = 400"
definition StatusNotFound :: nat where "StatusNotFound = 404"
definition StatusInternalServerError :: nat where "StatusInternalServerError = 500"

section \<open>The database handle\<close>

text \<open>
  The handlers reach the database through \<open>*sql.DB\<close> only, in four shapes, which are
  the four fields below. The database is outside the program, so the handle is a
  parameter: a reply is whatever the driver returns, and \<open>'s\<close> is the state of the
  database, which every call may change. A scanned row is the triple that
  \<open>Scan(&item.ID, &item.Name, &item.Price)\<close> stores, or the error \<open>Scan\<close> returns.
  \<^item> \<open>Query\<close>: \<open>db.Query\<close> and then \<open>rows.Next\<close>/\<open>rows.Scan\<close> on each row in turn;
  \<^item> \<open>QueryRowItem\<close>: \<open>db.QueryRow(...).Scan\<close> into the three fields of an item;
  \<^item> \<open>QueryRowID\<close>: \<open>db.QueryRow(...).Scan(&item.ID)\<close>;
  \<^item> \<open>Exec\<close>: \<open>db.Exec\<close>, and on success the reply of \<open>result.RowsAffected()\<close>.
\<close>

datatype sqlarg = ArgString string | ArgInt go_int

type_synonym row = "go_int \<times> string \<times> go_int"

record 's sqlDB =
  Query :: "string \<Rightarrow> sqlarg list \<Rightarrow> 's \<Rightarrow> (error + (error + row) list) \<times> 's"
  QueryRowItem :: "string \<Rightarrow> sqlarg list \<Rightarrow> 's \<Rightarrow> (error + row) \<times> 's"
  QueryRowID :: "string \<Rightarrow> sqlarg list \<Rightarrow> 's \<Rightarrow> (error + go_int) \<times> 's"
  Exec :: "string \<Rightarrow> sqlarg list \<Rightarrow> 's \<Rightarrow> (error + (error + go_int)) \<times> 's"

section \<open>The handlers\<close>

text \<open>
  A \<open>gin.Context\<close> is, for these handlers, the path parameters and the body of the
  request on the way in and the response on the way out. Each handler returns the
  response it writes and the state of the database after its calls.
\<close>

record Context =
  params :: "(string \<times> string) list"
  reqbody :: reqbody

definition Param :: "Context \<Rightarrow> string \<Rightarrow> string" where
  "Param c k = (case map_of (params c) k of Some v \<Rightarrow> v | None \<Rightarrow> [])"

fun scan_rows :: "(error + row) list \<Rightarrow> Item slice \<Rightarrow> error + Item slice" where
  "scan_rows [] items = Inr items"
| "scan_rows (r # rs) items =
     (case r of
        Inl err \<Rightarrow> Inl err
      | Inr (i, n, p) \<Rightarrow> scan_rows rs (append_slice items (zero_Item\<lparr>ID := i, Name := n, Price := p\<rparr>)))"

definition getItems :: "'s sqlDB GoPOS \<Rightarrow> Context \<Rightarrow> 's \<Rightarrow> response \<times> 's" where
  "getItems g c s =
     (case Query (db g) ''SELECT id, name, price FROM items'' [] s of
        (Inl err, s') \<Rightarrow> (JSON StatusInternalServerError (H ''error'' (Error err)), s')
      | (Inr rows, s') \<Rightarrow>
          (case scan_rows rows (Slice []) of
             Inl err \<Rightarrow> (JSON StatusInternalServerError (H ''error'' (Error err)), s')
           | Inr items \<Rightarrow> (JSON StatusOK (marshal_items items), s')))"

definition createItem :: "'s sqlDB GoPOS \<Rightarrow> Context \<Rightarrow> 's \<Rightarrow> response \<times> 's" where
  "createItem g c s =
     (case ShouldBindJSON (reqbody c) zero_Item of
        Inl err \<Rightarrow> (JSON StatusBadRequest (H ''error'' (Error err)), s)
      | Inr item \<Rightarrow>
          (case QueryRowID (db g) ''INSERT INTO items (name, price) VALUES ($1, $2) RETURNING id''
                  [ArgString (Name item), ArgInt (Price item)] s of
             (Inl err, s') \<Rightarrow> (JSON StatusInternalServerError (H ''error'' (Error err)), s')
           | (Inr i, s') \<Rightarrow> (JSON StatusCreated (marshal_Item (item\<lparr>ID := i\<rparr>)), s')))"

definition updateItem :: "'s sqlDB GoPOS \<Rightarrow> Context \<Rightarrow> 's \<Rightarrow> response \<times> 's" where
  "updateItem g c s =
     (let id = Param c ''id'' in
      case ShouldBindJSON (reqbody c) zero_Item of
        Inl err \<Rightarrow> (JSON StatusBadRequest (H ''error'' (Error err)), s)
      | Inr item \<Rightarrow>
          (case Exec (db g) ''UPDATE items SET name = $1, price = $2 WHERE id = $3''
                  [ArgString (Name item), ArgInt (Price item), ArgString id] s of
             (Inl err, s') \<Rightarrow> (JSON StatusInternalServerError (H ''error'' (Error err)), s')
           | (Inr result, s') \<Rightarrow>
               (case result of
                  Inl err \<Rightarrow> (JSON StatusNotFound (H ''error'' ''Item not found''), s')
                | Inr rowsAffected \<Rightarrow>
                    if rowsAffected = 0 then (JSON StatusNotFound (H ''error'' ''Item not found''), s')
                    else (JSON StatusOK (marshal_Item item), s'))))"

definition deleteItem :: "'s sqlDB GoPOS \<Rightarrow> Context \<Rightarrow> 's \<Rightarrow> response \<times> 's" where
  "deleteItem g c s =
     (let id = Param c ''id'' in
      case Exec (db g) ''DELETE FROM items WHERE id = $1'' [ArgString id] s of
        (Inl err, s') \<Rightarrow> (JSON StatusInternalServerError (H ''error'' (Error err)), s')
      | (Inr result, s') \<Rightarrow>
          (case result of
             Inl err \<Rightarrow> (JSON StatusNotFound (H ''error'' ''Item not found''), s')
           | Inr rowsAffected \<Rightarrow>
               if rowsAffected = 0 then (JSON StatusNotFound (H ''error'' ''Item not found''), s')
               else (Status StatusNoContent, s')))"

definition getItem :: "'s sqlDB GoPOS \<Rightarrow> Context \<Rightarrow> 's \<Rightarrow> response \<times> 's" where
  "getItem g c s =
     (let id = Param c ''id'' in
      case QueryRowItem (db g) ''SELECT id, name, price FROM items WHERE id = $1'' [ArgString id] s of
        (Inl err, s') \<Rightarrow>
          if err = ErrNoRows then (JSON StatusNotFound (H ''error'' ''Item not found''), s')
          else (JSON StatusInternalServerError (H ''error'' (Error err)), s')
      | (Inr (i, n, p), s') \<Rightarrow>
          (JSON StatusOK (marshal_Item (zero_Item\<lparr>ID := i, Name := n, Price := p\<rparr>)), s'))"

definition getStatus :: "'s sqlDB GoPOS \<Rightarrow> Context \<Rightarrow> 's \<Rightarrow> response \<times> 's" where
  "getStatus g c s = (JSON StatusOK (H ''status'' ''ok''), s)"

section \<open>The router\<close>

text \<open>
  \<open>serve\<close> registers six routes. A path is its segments between the slashes; a pattern
  segment that starts with a colon binds one non-empty segment to the name after the
  colon. A request that matches no route is not handled by this program's handlers.
\<close>

datatype verb = GET | POST | PUT | DELETE

datatype handler = GetStatus | GetItems | GetItem | CreateItem | UpdateItem | DeleteItem

type_synonym router = "(verb \<times> string list \<times> handler) list"

record request =
  meth :: verb
  segments :: "string list"
  body :: reqbody

fun match_path :: "string list \<Rightarrow> string list \<Rightarrow> (string \<times> string) list option" where
  "match_path [] [] = Some []"
| "match_path (p # ps) (x # xs) =
     (case p of
        [] \<Rightarrow> (if x = [] then match_path ps xs else None)
      | ch # name \<Rightarrow>
          if ch = CHR '':'' then
            (if x = [] then None else map_option (\<lambda>bs. (name, x) # bs) (match_path ps xs))
          else if p = x then match_path ps xs else None)"
| "match_path _ _ = None"

fun find_route :: "router \<Rightarrow> verb \<Rightarrow> string list \<Rightarrow> (handler \<times> (string \<times> string) list) option" where
  "find_route [] m p = None"
| "find_route ((m', pat, h) # rs) m p =
     (if m' = m then
        (case match_path pat p of Some bs \<Rightarrow> Some (h, bs) | None \<Rightarrow> find_route rs m p)
      else find_route rs m p)"

fun run_handler :: "handler \<Rightarrow> 's sqlDB GoPOS \<Rightarrow> Context \<Rightarrow> 's \<Rightarrow> response \<times> 's" where
  "run_handler GetStatus = getStatus"
| "run_handler GetItems = getItems"
| "run_handler GetItem = getItem"
| "run_handler CreateItem = createItem"
| "run_handler UpdateItem = updateItem"
| "run_handler DeleteItem = deleteItem"

definition ServeHTTP :: "router \<Rightarrow> 's sqlDB GoPOS \<Rightarrow> request \<Rightarrow> 's \<Rightarrow> (response \<times> 's) option" where
  "ServeHTTP r g req s =
     (case find_route r (meth req) (segments req) of
        None \<Rightarrow> None
      | Some (h, bs) \<Rightarrow> Some (run_handler h g \<lparr>params = bs, reqbody = body req\<rparr> s))"

section \<open>The bootstrap\<close>

text \<open>
  The environment is a map from variable names to values. \<open>viper\<close>, with
  \<open>AutomaticEnv\<close>, answers a key from the environment variable of that name when it is
  set and not empty, and from the default otherwise. The conversion of a variable's text
  to an \<open>int\<close> is \<open>viper\<close>'s and is a parameter, \<open>toInt\<close>. What the program prints is
  not modelled. \<open>log.Fatal\<close> ends the process.
\<close>

type_synonym env = "string \<rightharpoonup> string"

definition viper_env :: "env \<Rightarrow> string \<Rightarrow> string option" where
  "viper_env e k = (case e k of None \<Rightarrow> None | Some v \<Rightarrow> if v = [] then None else Some v)"

definition GetString :: "env \<Rightarrow> string \<Rightarrow> string \<Rightarrow> string" where
  "GetString e k dflt = (case viper_env e k of Some v \<Rightarrow> v | None \<Rightarrow> dflt)"

definition GetInt :: "(string \<Rightarrow> int) \<Rightarrow> env \<Rightarrow> string \<Rightarrow> int \<Rightarrow> int" where
  "GetInt toInt e k dflt = (case viper_env e k of Some v \<Rightarrow> toInt v | None \<Rightarrow> dflt)"

datatype 'a proc = Fatal error | Return 'a

definition service_port :: "env \<Rightarrow> string" where
  \<comment> \<open>The local \<open>port\<close> of \<open>initDB\<close>.\<close>
  "service_port e = (let port = GetString e ''GOPOS_PORT'' [] in if port = [] then defaultport else port)"

definition connString :: "(string \<Rightarrow> int) \<Rightarrow> env \<Rightarrow> string" where
  "connString toInt e =
     (let user = GetString e ''DB_USER'' [];
          password = GetString e ''DB_PASSWORD'' [];
          dbname = GetString e ''DB_NAME'' [];
          dbhost = GetString e ''DB_HOST'' ''localhost'';
          dbport = GetInt toInt e ''DB_PORT'' 5432;
          dbconnurl = GetString e ''DB_CONN_URL'' [];
          connStr = ''postgresql://'' @ user @ '':'' @ password @ ''@'' @ dbhost @ '':'' @ FormatInt dbport
                    @ ''/'' @ dbname @ ''?sslmode=disable''
      in if dbconnurl \<noteq> [] then dbconnurl else connStr)"

definition initDB ::
  "(string \<Rightarrow> int) \<Rightarrow> env \<Rightarrow> (string \<Rightarrow> string \<Rightarrow> error + 'd) \<Rightarrow> ('d \<Rightarrow> error option) \<Rightarrow> ('d \<times> error option) proc" where
  "initDB toInt e sqlOpen Ping =
     (let port = service_port e;
          connStr = connString toInt e
      in case sqlOpen ''postgres'' connStr of
           Inl err \<Rightarrow> Fatal err
         | Inr d \<Rightarrow>
             (case Ping d of
                Some err \<Rightarrow> Fatal err
              | None \<Rightarrow> Return (d, None)))"

text \<open>
  \<open>serve\<close> ends in one of three ways: the process has exited in \<open>initDB\<close>; the router
  serves on an address with a handle and a route table; or \<open>router.Run\<close> has returned an
  error, which is logged while the main goroutine waits for ever, serving nothing.
\<close>

datatype 'd running =
    Exited error
  | Serving string "'d GoPOS" router
  | Idle error

definition serve ::
  "(string \<Rightarrow> int) \<Rightarrow> env \<Rightarrow> (string \<Rightarrow> string \<Rightarrow> error + 'd) \<Rightarrow> ('d \<Rightarrow> error option) \<Rightarrow> (string \<Rightarrow> error option) \<Rightarrow> 'd running" where
  "serve toInt e sqlOpen Ping Run =
     (case initDB toInt e sqlOpen Ping of
        Fatal err \<Rightarrow> Exited err
      | Return (d, err) \<Rightarrow>
          (let g = newGpos d [] [];
               router =
                 [(GET, [''health''], GetStatus),
                  (GET, [''items''], GetItems),
                  (GET, [''items'', '':id''], GetItem),
                  (POST, [''items''], CreateItem),
                  (PUT, [''items'', '':id''], UpdateItem),
                  (DELETE, [''items'', '':id''], DeleteItem)]
           in case Run '':8000'' of
                Some err \<Rightarrow> Idle err
              | None \<Rightarrow> Serving '':8000'' g router))"

section \<open>A reference data store\<close>

text \<open>
  Modelled from the spec: the Data Store, an external collaborator that is not part of
  the repository. It holds the table \<open>items(id, name, price)\<close>, assigns the id of a new
  row itself and never reuses one, and runs each statement as one step. The id of a
  \<open>WHERE id = $1\<close> arrives as text and has to be the text of an integer, otherwise the
  statement fails. A store that is \<open>Down\<close> fails every statement; one in the mode
  \<open>NoRowCount\<close> runs a statement but cannot report how many rows it affected, which
  \<open>database/sql\<close> allows a driver to do. Every statement received is recorded in
  \<open>issued\<close>, with its arguments.
\<close>

datatype mode = Healthy | Down string | NoRowCount string

record store =
  table :: "Item list"
  next_id :: go_int
  mode :: mode
  issued :: "(string \<times> sqlarg list) list"

definition record_call :: "string \<Rightarrow> sqlarg list \<Rightarrow> store \<Rightarrow> store" where
  "record_call q args st = st\<lparr>issued := issued st @ [(q, args)]\<rparr>"

definition bad_id :: "string \<Rightarrow> error" where
  "bad_id t = ErrorString (''pq: invalid input syntax for type integer: '' @ t)"

definition unknown_statement :: error where
  "unknown_statement = ErrorString ''pq: statement not supported''"

definition row_of :: "Item \<Rightarrow> row" where
  "row_of it = (ID it, Name it, Price it)"

definition pg_Query :: "string \<Rightarrow> sqlarg list \<Rightarrow> store \<Rightarrow> (error + (error + row) list) \<times> store" where
  "pg_Query q args st =
     (let st' = record_call q args st in
      case mode st of
        Down m \<Rightarrow> (Inl (ErrorString m), st')
      | _ \<Rightarrow>
          if q = ''SELECT id, name, price FROM items'' \<and> args = []
          then (Inr (map (\<lambda>it. Inr (row_of it)) (table st)), st')
          else (Inl unknown_statement, st'))"

definition pg_QueryRowItem :: "string \<Rightarrow> sqlarg list \<Rightarrow> store \<Rightarrow> (error + row) \<times> store" where
  "pg_QueryRowItem q args st =
     (let st' = record_call q args st in
      case mode st of
        Down m \<Rightarrow> (Inl (ErrorString m), st')
      | _ \<Rightarrow>
          (case args of
             [ArgString t] \<Rightarrow>
               if q = ''SELECT id, name, price FROM items WHERE id = $1'' then
                 (case ParseInt t of
                    None \<Rightarrow> (Inl (bad_id t), st')
                  | Some i \<Rightarrow>
                      (case find (\<lambda>it. ID it = i) (table st) of
                         None \<Rightarrow> (Inl ErrNoRows, st')
                       | Some it \<Rightarrow> (Inr (row_of it), st')))
               else (Inl unknown_statement, st')
           | _ \<Rightarrow> (Inl unknown_statement, st')))"

definition pg_QueryRowID :: "string \<Rightarrow> sqlarg list \<Rightarrow> store \<Rightarrow> (error + go_int) \<times> store" where
  "pg_QueryRowID q args st =
     (let st' = record_call q args st in
      case mode st of
        Down m \<Rightarrow> (Inl (ErrorString m), st')
      | _ \<Rightarrow>
          (case args of
             [ArgString n, ArgInt p] \<Rightarrow>
               if q = ''INSERT INTO items (name, price) VALUES ($1, $2) RETURNING id'' then
                 (Inr (next_id st),
                  st'\<lparr>table := table st @ [\<lparr>ID = next_id st, Name = n, Price = p\<rparr>],
                      next_id := next_id st + 1\<rparr>)
               else (Inl unknown_statement, st')
           | _ \<Rightarrow> (Inl unknown_statement, st')))"

definition affected :: "mode \<Rightarrow> nat \<Rightarrow> error + go_int" where
  "affected m n = (case m of NoRowCount e \<Rightarrow> Inl (ErrorString e) | _ \<Rightarrow> Inr (of_nat n))"

definition pg_Exec :: "string \<Rightarrow> sqlarg list \<Rightarrow> store \<Rightarrow> (error + (error + go_int)) \<times> store" where
  "pg_Exec q args st =
     (let st' = record_call q args st in
      case mode st of
        Down m \<Rightarrow> (Inl (ErrorString m), st')
      | _ \<Rightarrow>
          (case args of
             [ArgString n, ArgInt p, ArgString t] \<Rightarrow>
               if q = ''UPDATE items SET name = $1, price = $2 WHERE id = $3'' then
                 (case ParseInt t of
                    None \<Rightarrow> (Inl (bad_id t), st')
                  | Some i \<Rightarrow>
                      (Inr (affected (mode st) (length (filter (\<lambda>it. ID it = i) (table st)))),
                       st'\<lparr>table := map (\<lambda>it. if ID it = i then it\<lparr>Name := n, Price := p\<rparr> else it) (table st)\<rparr>))
               else (Inl unknown_statement, st')
           | [ArgString t] \<Rightarrow>
               if q = ''DELETE FROM items WHERE id = $1'' then
                 (case ParseInt t of
                    None \<Rightarrow> (Inl (bad_id t), st')
                  | Some i \<Rightarrow>
                      (Inr (affected (mode st) (length (filter (\<lambda>it. ID it = i) (table st)))),
                       st'\<lparr>table := filter (\<lambda>it. ID it \<noteq> i) (table st)\<rparr>))
               else (Inl unknown_statement, st')
           | _ \<Rightarrow> (Inl unknown_statement, st')))"

definition pg :: "store sqlDB" where
  "pg = \<lparr>Query = pg_Query, QueryRowItem = pg_QueryRowItem, QueryRowID = pg_QueryRowID, Exec = pg_Exec\<rparr>"

definition gopos :: "store sqlDB GoPOS" where
  \<comment> \<open>The handle as \<open>serve\<close> builds it, on the reference store.\<close>
  "gopos = newGpos pg [] []"

definition empty_store :: store where
  "empty_store = \<lparr>table = [], next_id = 1, mode = Healthy, issued = []\<rparr>"

definition widget_store :: store where
  \<comment> \<open>The store after the first request of the spec's scenario.\<close>
  "widget_store = \<lparr>table = [\<lparr>ID = 1, Name = ''Widget'', Price = 100\<rparr>], next_id = 2, mode = Healthy, issued = []\<rparr>"

definition with_id :: "string \<Rightarrow> reqbody \<Rightarrow> Context" where
  "with_id i b = \<lparr>params = [(''id'', i)], reqbody = b\<rparr>"

subsection \<open>Sample requests, stores and start-up environments\<close>

definition no_body :: reqbody where
  \<comment> \<open>A request without a body: the decoder reports the end of the input.\<close>
  "no_body = Undecodable ''EOF''"

definition widget_body :: reqbody where
  "widget_body = Decoded (JObject [(''name'', JString ''Widget''), (''price'', JNumber ''100'')])"

definition widget2_body :: reqbody where
  "widget2_body = Decoded (JObject [(''name'', JString ''Widget2''), (''price'', JNumber ''150'')])"

definition widget99_body :: reqbody where
  "widget99_body =
     Decoded (JObject [(''id'', JNumber ''99''), (''name'', JString ''Widget''), (''price'', JNumber ''100'')])"

definition price_only_body :: reqbody where
  "price_only_body = Decoded (JObject [(''price'', JNumber ''5'')])"

definition cheap_body :: reqbody where
  "cheap_body = Decoded (JObject [(''name'', JString ''Widget''), (''price'', JString ''cheap'')])"

definition uncounted_store :: store where
  "uncounted_store = widget_store\<lparr>mode := NoRowCount ''no RowsAffected available''\<rparr>"

definition down_store :: store where
  "down_store = empty_store\<lparr>mode := Down ''connection refused''\<rparr>"

definition atoi :: "string \<Rightarrow> int" where
  "atoi s = (case signed_decimal s of Some n \<Rightarrow> n | None \<Rightarrow> 0)"

definition sample_env :: env where
  "sample_env = [''DB_USER'' \<mapsto> ''gopos'', ''DB_NAME'' \<mapsto> ''items'', ''GOPOS_PORT'' \<mapsto> ''9000'']"

definition open_pg :: "string \<Rightarrow> string \<Rightarrow> error + store sqlDB" where
  "open_pg driver conn = Inr pg"

definition open_refused :: "string \<Rightarrow> string \<Rightarrow> error + store sqlDB" where
  "open_refused driver conn = Inl (ErrorString ''sql: unknown driver'')"

definition ping_ok :: "store sqlDB \<Rightarrow> error option" where
  "ping_ok d = None"

definition ping_refused :: "store sqlDB \<Rightarrow> error option" where
  "ping_refused d = Some (ErrorString ''connection refused'')"

definition run_ok :: "string \<Rightarrow> error option" where
  "run_ok addr = None"

definition no_params :: "reqbody \<Rightarrow> Context" where
  "no_params b = \<lparr>params = [], reqbody = b\<rparr>"

definition health_request :: request where
  "health_request = \<lparr>meth = GET, segments = [''health''], body = widget_body\<rparr>"

definition widgetx_body :: reqbody where
  "widgetx_body =
     Decoded (JObject [(''id'', JString ''x''), (''name'', JString ''Widget''), (''price'', JNumber ''100'')])"

definition run_only_8000 :: "string \<Rightarrow> error option" where
  \<comment> \<open>A host on which only port 8000 can be bound.\<close>
  "run_only_8000 addr = (if addr = '':8000'' then None else Some (ErrorString ''listen: permission denied''))"

definition run_refuses_8000 :: "string \<Rightarrow> error option" where
  \<comment> \<open>A host on which port 8000 is taken and every other port is free.\<close>
  "run_refuses_8000 addr = (if addr = '':8000'' then Some (ErrorString ''listen: address already in use'') else None)"

section \<open>Properties\<close>

lemma code_JSON [simp]: "code (JSON c x) = c" "payload (JSON c x) = Some x"
  by (simp_all add: JSON_def)

lemma code_Status [simp]: "code (Status c) = c" "payload (Status c) = None"
  by (simp_all add: Status_def)

lemmas status_defs = StatusOK_def StatusCreated_def StatusNoContent_def StatusBadRequest_def
  StatusNotFound_def StatusInternalServerError_def

subsection \<open>Update and delete: the status of the response\<close>

text \<open>
  C1 (as amended). For a \<open>PUT /items/:id\<close> whose body binds, and for a
  \<open>DELETE /items/:id\<close>, the status is decided by the reply to the one statement the
  handler issues: 500 exactly when \<open>Exec\<close> itself fails; 404 when \<open>Exec\<close> succeeds and
  either the affected-row count is 0 or the count cannot be obtained; 200 (204 for
  delete) when the count is obtained and is not 0.
\<close>

theorem updateItem_deleteItem_status:
  "(ShouldBindJSON (reqbody c) zero_Item = Inr item \<longrightarrow>
      code (fst (updateItem g c s)) =
        (case fst (Exec (db g) ''UPDATE items SET name = $1, price = $2 WHERE id = $3''
                     [ArgString (Name item), ArgInt (Price item), ArgString (Param c ''id'')] s) of
           Inl err \<Rightarrow> StatusInternalServerError
         | Inr (Inl err) \<Rightarrow> StatusNotFound
         | Inr (Inr n) \<Rightarrow> if n = 0 then StatusNotFound else StatusOK))
   \<and> code (fst (deleteItem g c s)) =
        (case fst (Exec (db g) ''DELETE FROM items WHERE id = $1'' [ArgString (Param c ''id'')] s) of
           Inl err \<Rightarrow> StatusInternalServerError
         | Inr (Inl err) \<Rightarrow> StatusNotFound
         | Inr (Inr n) \<Rightarrow> if n = 0 then StatusNotFound else StatusNoContent)"
  by (simp add: updateItem_def deleteItem_def split: prod.splits sum.splits)

theorem updateItem_deleteItem_status_witness:
  "ShouldBindJSON (reqbody (with_id ''1'' widget2_body)) zero_Item = Inr \<lparr>ID = 0, Name = ''Widget2'', Price = 150\<rparr>
   \<and> code (fst (updateItem gopos (with_id ''1'' widget2_body) uncounted_store)) = StatusNotFound
   \<and> code (fst (deleteItem gopos (with_id ''7'' no_body) widget_store)) = StatusNotFound"
proof -
  have b: "ShouldBindJSON (reqbody (with_id ''1'' widget2_body)) zero_Item = Inr \<lparr>ID = 0, Name = ''Widget2'', Price = 150\<rparr>"
    by code_simp
  have e1: "fst (Exec (db gopos) ''UPDATE items SET name = $1, price = $2 WHERE id = $3''
                     [ArgString ''Widget2'', ArgInt 150, ArgString (Param (with_id ''1'' widget2_body) ''id'')] uncounted_store)
            = Inr (Inl (ErrorString ''no RowsAffected available''))"
    by code_simp
  have e2: "fst (Exec (db gopos) ''DELETE FROM items WHERE id = $1'' [ArgString (Param (with_id ''7'' no_body) ''id'')] widget_store)
            = Inr (Inr 0)"
    by code_simp
  from updateItem_deleteItem_status [of "with_id ''1'' widget2_body" "\<lparr>ID = 0, Name = ''Widget2'', Price = 150\<rparr>" gopos uncounted_store]
    b e1
  have u: "code (fst (updateItem gopos (with_id ''1'' widget2_body) uncounted_store)) = StatusNotFound"
    by simp
  from updateItem_deleteItem_status [of "with_id ''7'' no_body" "\<lparr>ID = 0, Name = ''Widget2'', Price = 150\<rparr>" gopos widget_store]
    e2
  have d: "code (fst (deleteItem gopos (with_id ''7'' no_body) widget_store)) = StatusNotFound"
    by simp
  from b u d show ?thesis by blast
qed

text \<open>
  The claim as it stands, that a failure to obtain the affected-row count is answered
  with 500, fails: the update of row 1 runs, the count is not available, and the
  response is 404.
\<close>

theorem rows_affected_error_counterexample:
  "fst (Exec (db gopos) ''UPDATE items SET name = $1, price = $2 WHERE id = $3''
          [ArgString ''Widget2'', ArgInt 150, ArgString ''1''] uncounted_store)
     = Inr (Inl (ErrorString ''no RowsAffected available''))
   \<and> code (fst (updateItem gopos (with_id ''1'' widget2_body) uncounted_store)) = 404
   \<and> code (fst (updateItem gopos (with_id ''1'' widget2_body) uncounted_store)) \<noteq> 500"
  by code_simp

subsection \<open>Create: a body that does not bind\<close>

lemma store_int_Inl:
  "v \<noteq> JNull \<Longrightarrow> (\<forall>lit. v = JNumber lit \<longrightarrow> ParseInt lit = None) \<Longrightarrow> \<exists>e. store_int f v = Inl e"
  by (cases v) (simp_all add: store_int_def)

lemma decode_object_sticky:
  "(k, v) \<in> set kvs \<Longrightarrow> lookup_field k = Some f \<Longrightarrow> (\<And>it. \<exists>e. store_field f v it = Inl e)
     \<Longrightarrow> \<exists>e. decode_object kvs it = Inl e"
proof (induction kvs arbitrary: it)
  case Nil
  then show ?case by simp
next
  case (Cons kv kvs)
  obtain k' v' where kv: "kv = (k', v')" by (cases kv)
  show ?case
  proof (cases "kv = (k, v)")
    case True
    with Cons.prems(2) Cons.prems(3) [of it] show ?thesis by auto
  next
    case False
    with Cons.prems(1) have "(k, v) \<in> set kvs" by simp
    from Cons.IH [OF this Cons.prems(2,3)] show ?thesis
      by (auto simp: kv split: option.splits sum.splits)
  qed
qed

lemma bad_price_fails:
  assumes "(k, v) \<in> set kvs" "lookup_field k = Some F_Price" "v \<noteq> JNull"
    "\<forall>lit. v = JNumber lit \<longrightarrow> ParseInt lit = None"
  shows "\<exists>e. ShouldBindJSON (Decoded (JObject kvs)) it = Inl e"
proof -
  from store_int_Inl [OF assms(3,4)] obtain e0 where "store_int ''price'' v = Inl e0" by blast
  then have "\<And>it. \<exists>e. store_field F_Price v it = Inl e" by simp
  from decode_object_sticky [OF assms(1,2) this] show ?thesis
    by (simp add: ShouldBindJSON_def)
qed

text \<open>
  C3 (as amended). A \<open>POST /items\<close> whose body does not bind is answered with 400 and
  the state of the database is returned as it was, whatever the handle: the handler
  makes no call. A body binds or not as \<open>ShouldBindJSON\<close> says; in particular an object
  with a \<open>price\<close> that is a string, a boolean, an array, an object, or a number that is
  not the literal of a 64-bit integer does not bind.
\<close>

theorem createItem_bind_failure:
  "(ShouldBindJSON (reqbody c) zero_Item = Inl e \<longrightarrow>
      createItem g c s = (JSON StatusBadRequest (H ''error'' (Error e)), s))
   \<and> (reqbody c = Decoded (JObject kvs) \<and> (k, v) \<in> set kvs \<and> lookup_field k = Some F_Price
        \<and> v \<noteq> JNull \<and> (\<forall>lit. v = JNumber lit \<longrightarrow> ParseInt lit = None) \<longrightarrow>
      code (fst (createItem g c s)) = StatusBadRequest \<and> snd (createItem g c s) = s)"
proof (intro conjI impI)
  assume "ShouldBindJSON (reqbody c) zero_Item = Inl e"
  then show "createItem g c s = (JSON StatusBadRequest (H ''error'' (Error e)), s)"
    by (simp add: createItem_def)
next
  assume a: "reqbody c = Decoded (JObject kvs) \<and> (k, v) \<in> set kvs \<and> lookup_field k = Some F_Price
        \<and> v \<noteq> JNull \<and> (\<forall>lit. v = JNumber lit \<longrightarrow> ParseInt lit = None)"
  then obtain e' where "ShouldBindJSON (reqbody c) zero_Item = Inl e'"
    using bad_price_fails [of k v kvs zero_Item] by auto
  then show "code (fst (createItem g c s)) = StatusBadRequest" "snd (createItem g c s) = s"
    by (simp_all add: createItem_def)
qed

theorem createItem_bind_failure_witness:
  "reqbody (no_params cheap_body) = Decoded (JObject [(''name'', JString ''Widget''), (''price'', JString ''cheap'')])
   \<and> lookup_field ''price'' = Some F_Price
   \<and> createItem gopos (no_params cheap_body) widget_store =
       (JSON 400 (H ''error'' ''json: cannot unmarshal string into Go struct field Item.price of type int''), widget_store)
   \<and> snd (createItem gopos (no_params cheap_body) widget_store) = widget_store"
proof -
  have r: "reqbody (no_params cheap_body) = Decoded (JObject [(''name'', JString ''Widget''), (''price'', JString ''cheap'')])"
    by code_simp
  have l: "lookup_field ''price'' = Some F_Price" by code_simp
  have b: "ShouldBindJSON (reqbody (no_params cheap_body)) zero_Item = Inl (UnmarshalTypeError ''string'' ''price'' ''int'')"
    by code_simp
  have m: "(''price'', JString ''cheap'') \<in> set [(''name'', JString ''Widget''), (''price'', JString ''cheap'')]" by simp
  note t = createItem_bind_failure [of "no_params cheap_body" "UnmarshalTypeError ''string'' ''price'' ''int''"
      gopos widget_store "[(''name'', JString ''Widget''), (''price'', JString ''cheap'')]" "''price''" "JString ''cheap''"]
  from t b have 1: "createItem gopos (no_params cheap_body) widget_store =
       (JSON 400 (H ''error'' ''json: cannot unmarshal string into Go struct field Item.price of type int''), widget_store)"
    by (simp add: StatusBadRequest_def)
  from t r l m have 2: "snd (createItem gopos (no_params cheap_body) widget_store) = widget_store"
    by simp
  from r l 1 2 show ?thesis by blast
qed

text \<open>
  The claim as it stands, that a body without \<open>name\<close> is answered with 400 and creates
  no row, fails: \<open>Item\<close> has no \<open>binding:"required"\<close> tag, the field keeps its zero
  value, and the row is inserted with an empty name.
\<close>

theorem missing_name_counterexample:
  "code (fst (createItem gopos (no_params price_only_body) empty_store)) = 201
   \<and> table (snd (createItem gopos (no_params price_only_body) empty_store)) = [\<lparr>ID = 1, Name = [], Price = 5\<rparr>]
   \<and> issued (snd (createItem gopos (no_params price_only_body) empty_store)) =
       [(''INSERT INTO items (name, price) VALUES ($1, $2) RETURNING id'', [ArgString [], ArgInt 5])]"
  by code_simp

subsection \<open>Update: the item in the response\<close>

text \<open>
  C2. The claim is that the item in the response to a \<open>PUT /items/:id\<close> carries the id
  of the path. The handler marshals the item it bound from the body and never stores
  the path's id in it (as \<open>createItem\<close> does with the id it is given), so the response to
  the spec's own request, \<open>PUT /items/1\<close> with name Widget2 and price 150 on a table
  that holds row 1, carries id 0. The row itself is updated.
\<close>

theorem updateItem_response_id_from_body:
  "fst (updateItem gopos (with_id ''1'' widget2_body) widget_store) =
     \<lparr>code = 200,
      payload = Some (JObject [(''id'', JNumber ''0''), (''name'', JString ''Widget2''), (''price'', JNumber ''150'')])\<rparr>
   \<and> table (snd (updateItem gopos (with_id ''1'' widget2_body) widget_store)) =
       [\<lparr>ID = 1, Name = ''Widget2'', Price = 150\<rparr>]"
  by code_simp

subsection \<open>A row that is not there\<close>

text \<open>
  C4. When no row matches the id and the data store says so (the \<open>SELECT\<close> yields
  \<open>sql.ErrNoRows\<close>; the \<open>UPDATE\<close> or \<open>DELETE\<close> succeeds with an affected-row count of
  0), \<open>GET\<close>, \<open>PUT\<close> with a body that binds, and \<open>DELETE\<close> answer 404. \<open>GET\<close> answers
  404 exactly when the \<open>SELECT\<close> yields \<open>sql.ErrNoRows\<close>, and 500 on every other error
  of the data store.
\<close>

theorem missing_row_status:
  "(fst (QueryRowItem (db g) ''SELECT id, name, price FROM items WHERE id = $1'' [ArgString (Param c ''id'')] s) = Inl ErrNoRows \<longrightarrow>
      code (fst (getItem g c s)) = StatusNotFound)
   \<and> (fst (QueryRowItem (db g) ''SELECT id, name, price FROM items WHERE id = $1'' [ArgString (Param c ''id'')] s) = Inl e
        \<and> e \<noteq> ErrNoRows \<longrightarrow>
      code (fst (getItem g c s)) = StatusInternalServerError)
   \<and> (code (fst (getItem g c s)) = StatusNotFound \<longleftrightarrow>
        fst (QueryRowItem (db g) ''SELECT id, name, price FROM items WHERE id = $1'' [ArgString (Param c ''id'')] s) = Inl ErrNoRows)
   \<and> (ShouldBindJSON (reqbody c) zero_Item = Inr item
        \<and> fst (Exec (db g) ''UPDATE items SET name = $1, price = $2 WHERE id = $3''
                 [ArgString (Name item), ArgInt (Price item), ArgString (Param c ''id'')] s) = Inr (Inr 0) \<longrightarrow>
      code (fst (updateItem g c s)) = StatusNotFound)
   \<and> (fst (Exec (db g) ''DELETE FROM items WHERE id = $1'' [ArgString (Param c ''id'')] s) = Inr (Inr 0) \<longrightarrow>
      code (fst (deleteItem g c s)) = StatusNotFound)"
  by (auto simp: getItem_def updateItem_def deleteItem_def status_defs split: prod.splits sum.splits)

theorem missing_row_status_witness:
  "fst (QueryRowItem (db gopos) ''SELECT id, name, price FROM items WHERE id = $1'' [ArgString (Param (with_id ''7'' widget2_body) ''id'')] widget_store) = Inl ErrNoRows
   \<and> code (fst (getItem gopos (with_id ''7'' widget2_body) widget_store)) = 404
   \<and> fst (QueryRowItem (db gopos) ''SELECT id, name, price FROM items WHERE id = $1'' [ArgString (Param (with_id ''7'' widget2_body) ''id'')] down_store)
       = Inl (ErrorString ''connection refused'')
   \<and> code (fst (getItem gopos (with_id ''7'' widget2_body) down_store)) = 500
   \<and> code (fst (updateItem gopos (with_id ''7'' widget2_body) widget_store)) = 404
   \<and> code (fst (deleteItem gopos (with_id ''7'' widget2_body) widget_store)) = 404"
proof -
  let ?c = "with_id ''7'' widget2_body"
  let ?item = "\<lparr>ID = 0, Name = ''Widget2'', Price = 150\<rparr>"
  have q: "fst (QueryRowItem (db gopos) ''SELECT id, name, price FROM items WHERE id = $1'' [ArgString (Param ?c ''id'')] widget_store) = Inl ErrNoRows"
    by code_simp
  have q': "fst (QueryRowItem (db gopos) ''SELECT id, name, price FROM items WHERE id = $1'' [ArgString (Param ?c ''id'')] down_store)
       = Inl (ErrorString ''connection refused'')"
    by code_simp
  have b: "ShouldBindJSON (reqbody ?c) zero_Item = Inr ?item"
    by code_simp
  have u: "fst (Exec (db gopos) ''UPDATE items SET name = $1, price = $2 WHERE id = $3''
                 [ArgString (Name ?item), ArgInt (Price ?item), ArgString (Param ?c ''id'')] widget_store) = Inr (Inr 0)"
    by code_simp
  have d: "fst (Exec (db gopos) ''DELETE FROM items WHERE id = $1'' [ArgString (Param ?c ''id'')] widget_store) = Inr (Inr 0)"
    by code_simp
  note t = missing_row_status [of gopos ?c widget_store "ErrorString ''connection refused''" ?item]
  note t' = missing_row_status [of gopos ?c down_store "ErrorString ''connection refused''" ?item]
  from t q have 1: "code (fst (getItem gopos ?c widget_store)) = 404"
    by (simp add: status_defs)
  from t' q' have 2: "code (fst (getItem gopos ?c down_store)) = 500"
    by (simp add: status_defs)
  from t b u have 3: "code (fst (updateItem gopos ?c widget_store)) = 404"
    by (simp add: status_defs)
  from t d have 4: "code (fst (deleteItem gopos ?c widget_store)) = 404"
    by (simp add: status_defs)
  from q q' 1 2 3 4 show ?thesis by blast
qed

subsection \<open>The list of all items\<close>

lemma scan_rows_Slice:
  "scan_rows rows (Slice xs) = Inr items \<Longrightarrow> \<exists>ys. items = Slice ys"
proof (induction rows arbitrary: xs)
  case Nil
  then show ?case by auto
next
  case (Cons r rows)
  then show ?case by (auto split: sum.splits)
qed

text \<open>
  C8. When the query succeeds and yields no row, \<open>GET /items\<close> answers 200 with the
  empty array; and no response of \<open>getItems\<close> is ever the JSON \<open>null\<close>, since the slice
  starts as \<open>[]Item{}\<close> and not as nil.
\<close>

theorem getItems_never_null:
  "(fst (Query (db g) ''SELECT id, name, price FROM items'' [] s) = Inr [] \<longrightarrow>
      fst (getItems g c s) = JSON StatusOK (JArray []))
   \<and> payload (fst (getItems g c s)) \<noteq> Some JNull"
proof (intro conjI impI)
  assume "fst (Query (db g) ''SELECT id, name, price FROM items'' [] s) = Inr []"
  then show "fst (getItems g c s) = JSON StatusOK (JArray [])"
    by (auto simp: getItems_def split: prod.splits sum.splits)
next
  show "payload (fst (getItems g c s)) \<noteq> Some JNull"
    by (auto simp: getItems_def H_def split: prod.splits sum.splits dest!: scan_rows_Slice)
qed

theorem getItems_never_null_witness:
  "fst (Query (db gopos) ''SELECT id, name, price FROM items'' [] empty_store) = Inr []
   \<and> fst (getItems gopos (no_params no_body) empty_store) = \<lparr>code = 200, payload = Some (JArray [])\<rparr>"
proof -
  have q: "fst (Query (db gopos) ''SELECT id, name, price FROM items'' [] empty_store) = Inr []"
    by code_simp
  from getItems_never_null [of gopos empty_store "no_params no_body"] q
  have "fst (getItems gopos (no_params no_body) empty_store) = JSON StatusOK (JArray [])"
    by simp
  with q show ?thesis by (simp add: JSON_def StatusOK_def)
qed

subsection \<open>The bootstrap\<close>

lemma viper_env_other [simp]: "k \<noteq> k' \<Longrightarrow> viper_env (e(k' \<mapsto> p)) k = viper_env e k"
  by (simp add: viper_env_def)

lemma connString_GOPOS_PORT: "connString toInt (e(''GOPOS_PORT'' \<mapsto> p)) = connString toInt e"
  by (simp add: connString_def GetString_def GetInt_def)

lemma initDB_GOPOS_PORT:
  "initDB toInt (e(''GOPOS_PORT'' \<mapsto> p)) sqlOpen Ping = initDB toInt e sqlOpen Ping"
  by (simp add: initDB_def connString_GOPOS_PORT)

text \<open>
  C5. The one address \<open>serve\<close> asks the router to listen on is \<open>:8000\<close>: once
  \<open>initDB\<close> has returned, \<open>serve\<close> serves exactly when \<open>router.Run(":8000")\<close> does not
  fail and waits idle with that call's error when it does, and what \<open>Run\<close> would do at
  any other address makes no difference. The handle it builds has an empty \<open>port\<close>. The
  outcome of \<open>serve\<close> is the same whatever \<open>GOPOS_PORT\<close> is set to, although \<open>initDB\<close>
  reads the variable into its local \<open>port\<close>, with \<open>"3000"\<close> when it is unset or empty.
\<close>

theorem listener_port_fixed:
  "(serve toInt e sqlOpen Ping Run = Serving a g r \<longrightarrow> a = '':8000'' \<and> port g = [] \<and> Run '':8000'' = None)
   \<and> (initDB toInt e sqlOpen Ping = Return (d, err) \<and> Run '':8000'' = None \<longrightarrow>
        (\<exists>r. serve toInt e sqlOpen Ping Run = Serving '':8000'' (newGpos d [] []) r))
   \<and> (initDB toInt e sqlOpen Ping = Return (d, err) \<and> Run '':8000'' = Some x \<longrightarrow>
        serve toInt e sqlOpen Ping Run = Idle x)
   \<and> (Run' '':8000'' = Run '':8000'' \<longrightarrow>
        serve toInt e sqlOpen Ping Run' = serve toInt e sqlOpen Ping Run)
   \<and> serve toInt (e(''GOPOS_PORT'' \<mapsto> p)) sqlOpen Ping Run = serve toInt e sqlOpen Ping Run
   \<and> service_port (e(''GOPOS_PORT'' \<mapsto> p)) = (if p = [] then ''3000'' else p)
   \<and> (e ''GOPOS_PORT'' = None \<longrightarrow> service_port e = ''3000'')"
proof (intro conjI impI)
  assume "serve toInt e sqlOpen Ping Run = Serving a g r"
  then show "a = '':8000''" "port g = []" "Run '':8000'' = None"
    by (auto simp: serve_def newGpos_def split: proc.splits option.splits)
next
  assume "initDB toInt e sqlOpen Ping = Return (d, err) \<and> Run '':8000'' = None"
  then show "\<exists>r. serve toInt e sqlOpen Ping Run = Serving '':8000'' (newGpos d [] []) r"
    by (simp add: serve_def)
next
  assume "initDB toInt e sqlOpen Ping = Return (d, err) \<and> Run '':8000'' = Some x"
  then show "serve toInt e sqlOpen Ping Run = Idle x"
    by (simp add: serve_def)
next
  assume "Run' '':8000'' = Run '':8000''"
  then show "serve toInt e sqlOpen Ping Run' = serve toInt e sqlOpen Ping Run"
    by (simp add: serve_def Let_def split: proc.splits)
next
  show "serve toInt (e(''GOPOS_PORT'' \<mapsto> p)) sqlOpen Ping Run = serve toInt e sqlOpen Ping Run"
    by (simp add: serve_def initDB_GOPOS_PORT)
next
  show "service_port (e(''GOPOS_PORT'' \<mapsto> p)) = (if p = [] then ''3000'' else p)"
    by (simp add: service_port_def GetString_def viper_env_def defaultport_def)
next
  assume "e ''GOPOS_PORT'' = None"
  then show "service_port e = ''3000''"
    by (simp add: service_port_def GetString_def viper_env_def defaultport_def)
qed

theorem listener_port_fixed_witness:
  "service_port sample_env = ''9000''
   \<and> run_only_8000 '':9000'' = Some (ErrorString ''listen: permission denied'')
   \<and> serve atoi sample_env open_pg ping_ok run_only_8000 =
       Serving '':8000'' gopos
         [(GET, [''health''], GetStatus), (GET, [''items''], GetItems), (GET, [''items'', '':id''], GetItem),
          (POST, [''items''], CreateItem), (PUT, [''items'', '':id''], UpdateItem),
          (DELETE, [''items'', '':id''], DeleteItem)]
   \<and> port gopos = []
   \<and> run_refuses_8000 '':9000'' = None
   \<and> serve atoi sample_env open_pg ping_ok run_refuses_8000 = Idle (ErrorString ''listen: address already in use'')
   \<and> serve atoi sample_env open_pg ping_ok run_ok = serve atoi sample_env open_pg ping_ok run_only_8000
   \<and> Map.empty ''GOPOS_PORT'' = (None :: string option)
   \<and> service_port Map.empty = ''3000''"
proof -
  let ?r = "[(GET, [''health''], GetStatus), (GET, [''items''], GetItems), (GET, [''items'', '':id''], GetItem),
        (POST, [''items''], CreateItem), (PUT, [''items'', '':id''], UpdateItem),
        (DELETE, [''items'', '':id''], DeleteItem)]"
  let ?busy = "ErrorString ''listen: address already in use''"
  have i: "initDB atoi sample_env open_pg ping_ok = Return (pg, None)"
    by (simp add: initDB_def open_pg_def ping_ok_def)
  have a: "run_only_8000 '':8000'' = None" and a': "run_only_8000 '':9000'' = Some (ErrorString ''listen: permission denied'')"
    by (simp_all add: run_only_8000_def)
  have b: "run_refuses_8000 '':8000'' = Some ?busy" and b': "run_refuses_8000 '':9000'' = None"
    by (simp_all add: run_refuses_8000_def)
  have k: "run_ok '':8000'' = run_only_8000 '':8000''"
    by (simp add: run_ok_def run_only_8000_def)
  have p: "service_port sample_env = ''9000''"
    by (simp add: service_port_def GetString_def viper_env_def sample_env_def)
  note t = listener_port_fixed [where toInt = atoi and e = sample_env and sqlOpen = open_pg and Ping = ping_ok
      and d = pg and err = None and x = ?busy]
  from t [where Run = run_only_8000, THEN conjunct2, THEN conjunct1] i a
  have s0: "\<exists>r. serve atoi sample_env open_pg ping_ok run_only_8000 = Serving '':8000'' (newGpos pg [] []) r"
    by simp
  have "serve atoi sample_env open_pg ping_ok run_only_8000 = Serving '':8000'' (newGpos pg [] []) ?r"
    by (simp add: serve_def i a)
  then have s: "serve atoi sample_env open_pg ping_ok run_only_8000 = Serving '':8000'' gopos ?r"
    by (simp only: gopos_def)
  from t [where Run = run_only_8000 and a = "'':8000''" and g = gopos and r = ?r, THEN conjunct1] s
  have 1: "port gopos = []" by simp
  from t [where Run = run_refuses_8000, THEN conjunct2, THEN conjunct2, THEN conjunct1] i b
  have 2: "serve atoi sample_env open_pg ping_ok run_refuses_8000 = Idle ?busy" by simp
  from t [where Run = run_only_8000 and Run' = run_ok,
      THEN conjunct2, THEN conjunct2, THEN conjunct2, THEN conjunct1] k
  have 3: "serve atoi sample_env open_pg ping_ok run_ok = serve atoi sample_env open_pg ping_ok run_only_8000"
    by simp
  from listener_port_fixed [where e = Map.empty,
      THEN conjunct2, THEN conjunct2, THEN conjunct2, THEN conjunct2, THEN conjunct2, THEN conjunct2]
  have 4: "service_port Map.empty = ''3000''" by simp
  have z: "Map.empty ''GOPOS_PORT'' = (None :: string option)" by simp
  from p a' s 1 b' 2 3 z 4 show ?thesis by (intro conjI)
qed

text \<open>
  C6. If \<open>sql.Open\<close> fails, or it succeeds and the first \<open>Ping\<close> fails, the process
  exits inside \<open>initDB\<close>, before any route is registered; and \<open>serve\<close> serves only on
  a handle that was opened and answered the ping.
\<close>

theorem startup_failure_is_fatal:
  "(sqlOpen ''postgres'' (connString toInt e) = Inl err \<longrightarrow> serve toInt e sqlOpen Ping Run = Exited err)
   \<and> (sqlOpen ''postgres'' (connString toInt e) = Inr d \<and> Ping d = Some err \<longrightarrow>
        serve toInt e sqlOpen Ping Run = Exited err)
   \<and> (serve toInt e sqlOpen Ping Run = Serving a g r \<longrightarrow>
        sqlOpen ''postgres'' (connString toInt e) = Inr (db g) \<and> Ping (db g) = None)"
  by (auto simp: serve_def initDB_def newGpos_def split: sum.splits option.splits)

theorem startup_failure_is_fatal_witness:
  "open_refused ''postgres'' (connString atoi sample_env) = Inl (ErrorString ''sql: unknown driver'')
   \<and> serve atoi sample_env open_refused ping_ok run_ok = Exited (ErrorString ''sql: unknown driver'')
   \<and> open_pg ''postgres'' (connString atoi sample_env) = Inr pg
   \<and> ping_refused pg = Some (ErrorString ''connection refused'')
   \<and> serve atoi sample_env open_pg ping_refused run_ok = Exited (ErrorString ''connection refused'')"
proof -
  have o: "open_refused ''postgres'' (connString atoi sample_env) = Inl (ErrorString ''sql: unknown driver'')"
    by (simp add: open_refused_def)
  have o': "open_pg ''postgres'' (connString atoi sample_env) = Inr pg"
    by (simp add: open_pg_def)
  have p: "ping_refused pg = Some (ErrorString ''connection refused'')"
    by (simp add: ping_refused_def)
  from startup_failure_is_fatal [of open_refused atoi sample_env "ErrorString ''sql: unknown driver''" ping_ok run_ok] o
  have 1: "serve atoi sample_env open_refused ping_ok run_ok = Exited (ErrorString ''sql: unknown driver'')"
    by simp
  from startup_failure_is_fatal [of open_pg atoi sample_env "ErrorString ''connection refused''" ping_refused run_ok pg] o' p
  have 2: "serve atoi sample_env open_pg ping_refused run_ok = Exited (ErrorString ''connection refused'')"
    by simp
  from o o' p 1 2 show ?thesis by blast
qed

subsection \<open>The health check\<close>

text \<open>
  C7. On the router that \<open>serve\<close> builds, \<open>GET /health\<close> is answered with 200 and
  \<open>{"status":"ok"}\<close> whatever the body of the request, the handle and the state of the
  database, and the state is returned as it was: no statement is issued.
\<close>

theorem health_unconditional:
  "serve toInt e sqlOpen Ping Run = Serving a g r \<Longrightarrow> meth req = GET \<Longrightarrow> segments req = [''health''] \<Longrightarrow>
     ServeHTTP r g req s = Some (\<lparr>code = 200, payload = Some (JObject [(''status'', JString ''ok'')])\<rparr>, s)"
  by (auto simp: serve_def ServeHTTP_def getStatus_def H_def JSON_def StatusOK_def
           split: proc.splits option.splits)

theorem health_unconditional_witness:
  "serve atoi sample_env open_pg ping_ok run_ok =
     Serving '':8000'' gopos
       [(GET, [''health''], GetStatus), (GET, [''items''], GetItems), (GET, [''items'', '':id''], GetItem),
        (POST, [''items''], CreateItem), (PUT, [''items'', '':id''], UpdateItem),
        (DELETE, [''items'', '':id''], DeleteItem)]
   \<and> meth health_request = GET \<and> segments health_request = [''health'']
   \<and> ServeHTTP
        [(GET, [''health''], GetStatus), (GET, [''items''], GetItems), (GET, [''items'', '':id''], GetItem),
         (POST, [''items''], CreateItem), (PUT, [''items'', '':id''], UpdateItem),
         (DELETE, [''items'', '':id''], DeleteItem)]
        gopos health_request down_store =
       Some (\<lparr>code = 200, payload = Some (JObject [(''status'', JString ''ok'')])\<rparr>, down_store)"
proof -
  let ?r = "[(GET, [''health''], GetStatus), (GET, [''items''], GetItems), (GET, [''items'', '':id''], GetItem),
        (POST, [''items''], CreateItem), (PUT, [''items'', '':id''], UpdateItem),
        (DELETE, [''items'', '':id''], DeleteItem)]"
  have s: "serve atoi sample_env open_pg ping_ok run_ok = Serving '':8000'' gopos ?r"
    by (simp add: serve_def initDB_def open_pg_def ping_ok_def run_ok_def gopos_def)
  have m: "meth health_request = GET" and p: "segments health_request = [''health'']"
    by (simp_all add: health_request_def)
  from health_unconditional [OF s m p, of down_store] s m p show ?thesis by simp
qed

subsection \<open>The id of the path\<close>

lemma getItem_bad_id:
  "ParseInt (Param c ''id'') = None \<Longrightarrow>
     code (fst (getItem gopos c st)) = 500
     \<and> snd (getItem gopos c st) =
         record_call ''SELECT id, name, price FROM items WHERE id = $1'' [ArgString (Param c ''id'')] st"
  by (cases "mode st")
     (simp_all add: getItem_def gopos_def newGpos_def pg_def pg_QueryRowItem_def bad_id_def status_defs Let_def)

lemma deleteItem_bad_id:
  "ParseInt (Param c ''id'') = None \<Longrightarrow>
     code (fst (deleteItem gopos c st)) = 500
     \<and> snd (deleteItem gopos c st) =
         record_call ''DELETE FROM items WHERE id = $1'' [ArgString (Param c ''id'')] st"
  by (cases "mode st")
     (simp_all add: deleteItem_def gopos_def newGpos_def pg_def pg_Exec_def bad_id_def status_defs Let_def)

lemma updateItem_bad_id:
  "ParseInt (Param c ''id'') = None \<Longrightarrow> ShouldBindJSON (reqbody c) zero_Item = Inr item \<Longrightarrow>
     code (fst (updateItem gopos c st)) = 500
     \<and> snd (updateItem gopos c st) =
         record_call ''UPDATE items SET name = $1, price = $2 WHERE id = $3''
           [ArgString (Name item), ArgInt (Price item), ArgString (Param c ''id'')] st"
  by (cases "mode st")
     (simp_all add: updateItem_def gopos_def newGpos_def pg_def pg_Exec_def bad_id_def status_defs Let_def)

lemma never_400:
  "code (fst (getItem g c s)) \<noteq> 400" "code (fst (deleteItem g c s)) \<noteq> 400"
  "ShouldBindJSON (reqbody c) zero_Item = Inr item \<Longrightarrow> code (fst (updateItem g c s)) \<noteq> 400"
  by (auto simp: getItem_def deleteItem_def updateItem_def status_defs split: prod.splits sum.splits)

text \<open>
  C9 (as amended). No handler looks at the form of the id: \<open>GET\<close> and \<open>DELETE\<close> on
  \<open>/items/:id\<close>, and \<open>PUT\<close> with a body that binds, never answer 400, and hand the text
  of the path segment to the statement as it is. On the reference store an id that is
  not the text of an integer makes the statement fail, and all three answer 500.
\<close>

theorem path_id_not_validated:
  "(ParseInt (Param c ''id'') = None \<longrightarrow>
      code (fst (getItem gopos c st)) = 500
      \<and> snd (getItem gopos c st) =
          record_call ''SELECT id, name, price FROM items WHERE id = $1'' [ArgString (Param c ''id'')] st
      \<and> code (fst (deleteItem gopos c st)) = 500
      \<and> snd (deleteItem gopos c st) =
          record_call ''DELETE FROM items WHERE id = $1'' [ArgString (Param c ''id'')] st
      \<and> (ShouldBindJSON (reqbody c) zero_Item = Inr item \<longrightarrow>
           code (fst (updateItem gopos c st)) = 500
           \<and> snd (updateItem gopos c st) =
               record_call ''UPDATE items SET name = $1, price = $2 WHERE id = $3''
                 [ArgString (Name item), ArgInt (Price item), ArgString (Param c ''id'')] st))
   \<and> code (fst (getItem g c s)) \<noteq> 400
   \<and> code (fst (deleteItem g c s)) \<noteq> 400
   \<and> (ShouldBindJSON (reqbody c) zero_Item = Inr item \<longrightarrow> code (fst (updateItem g c s)) \<noteq> 400)"
proof -
  have bad: "ParseInt (Param c ''id'') = None \<longrightarrow>
      code (fst (getItem gopos c st)) = 500
      \<and> snd (getItem gopos c st) =
          record_call ''SELECT id, name, price FROM items WHERE id = $1'' [ArgString (Param c ''id'')] st
      \<and> code (fst (deleteItem gopos c st)) = 500
      \<and> snd (deleteItem gopos c st) =
          record_call ''DELETE FROM items WHERE id = $1'' [ArgString (Param c ''id'')] st
      \<and> (ShouldBindJSON (reqbody c) zero_Item = Inr item \<longrightarrow>
           code (fst (updateItem gopos c st)) = 500
           \<and> snd (updateItem gopos c st) =
               record_call ''UPDATE items SET name = $1, price = $2 WHERE id = $3''
                 [ArgString (Name item), ArgInt (Price item), ArgString (Param c ''id'')] st)"
  proof
    assume p: "ParseInt (Param c ''id'') = None"
    show "code (fst (getItem gopos c st)) = 500
      \<and> snd (getItem gopos c st) =
          record_call ''SELECT id, name, price FROM items WHERE id = $1'' [ArgString (Param c ''id'')] st
      \<and> code (fst (deleteItem gopos c st)) = 500
      \<and> snd (deleteItem gopos c st) =
          record_call ''DELETE FROM items WHERE id = $1'' [ArgString (Param c ''id'')] st
      \<and> (ShouldBindJSON (reqbody c) zero_Item = Inr item \<longrightarrow>
           code (fst (updateItem gopos c st)) = 500
           \<and> snd (updateItem gopos c st) =
               record_call ''UPDATE items SET name = $1, price = $2 WHERE id = $3''
                 [ArgString (Name item), ArgInt (Price item), ArgString (Param c ''id'')] st)"
      apply (rule conjI, rule getItem_bad_id [OF p, THEN conjunct1])
      apply (rule conjI, rule getItem_bad_id [OF p, THEN conjunct2])
      apply (rule conjI, rule deleteItem_bad_id [OF p, THEN conjunct1])
      apply (rule conjI, rule deleteItem_bad_id [OF p, THEN conjunct2])
      apply (rule impI)
      apply (erule updateItem_bad_id [OF p])
      done
  qed
  show ?thesis
    apply (rule conjI, rule bad)
    apply (rule conjI, rule never_400(1))
    apply (rule conjI, rule never_400(2))
    apply (rule impI)
    apply (erule never_400(3))
    done
qed

theorem path_id_not_validated_witness:
  "ParseInt (Param (with_id ''abc'' widget2_body) ''id'') = None
   \<and> ShouldBindJSON (reqbody (with_id ''abc'' widget2_body)) zero_Item = Inr \<lparr>ID = 0, Name = ''Widget2'', Price = 150\<rparr>
   \<and> code (fst (getItem gopos (with_id ''abc'' widget2_body) widget_store)) = 500
   \<and> issued (snd (getItem gopos (with_id ''abc'' widget2_body) widget_store)) =
       [(''SELECT id, name, price FROM items WHERE id = $1'', [ArgString ''abc''])]
   \<and> code (fst (deleteItem gopos (with_id ''abc'' widget2_body) widget_store)) = 500
   \<and> code (fst (updateItem gopos (with_id ''abc'' widget2_body) widget_store)) = 500
   \<and> issued (snd (updateItem gopos (with_id ''abc'' widget2_body) widget_store)) =
       [(''UPDATE items SET name = $1, price = $2 WHERE id = $3'',
         [ArgString ''Widget2'', ArgInt 150, ArgString ''abc''])]"
proof -
  let ?c = "with_id ''abc'' widget2_body"
  let ?item = "\<lparr>ID = 0, Name = ''Widget2'', Price = 150\<rparr>"
  have i: "Param ?c ''id'' = ''abc''" by code_simp
  have p: "ParseInt (Param ?c ''id'') = None" by code_simp
  have b: "ShouldBindJSON (reqbody ?c) zero_Item = Inr ?item" by code_simp
  have w: "issued widget_store = []" by code_simp
  note t = path_id_not_validated [where c = ?c and st = widget_store and item = ?item and g = gopos and s = widget_store]
  from t have bad: "code (fst (getItem gopos ?c widget_store)) = 500
      \<and> snd (getItem gopos ?c widget_store) =
          record_call ''SELECT id, name, price FROM items WHERE id = $1'' [ArgString (Param ?c ''id'')] widget_store
      \<and> code (fst (deleteItem gopos ?c widget_store)) = 500
      \<and> snd (deleteItem gopos ?c widget_store) =
          record_call ''DELETE FROM items WHERE id = $1'' [ArgString (Param ?c ''id'')] widget_store
      \<and> (ShouldBindJSON (reqbody ?c) zero_Item = Inr ?item \<longrightarrow>
           code (fst (updateItem gopos ?c widget_store)) = 500
           \<and> snd (updateItem gopos ?c widget_store) =
               record_call ''UPDATE items SET name = $1, price = $2 WHERE id = $3''
                 [ArgString (Name ?item), ArgInt (Price ?item), ArgString (Param ?c ''id'')] widget_store)"
    by (rule conjunct1 [THEN mp, OF _ p])
  note upd = bad [THEN conjunct2, THEN conjunct2, THEN conjunct2, THEN conjunct2, THEN mp, OF b]
  from bad have 1: "code (fst (getItem gopos ?c widget_store)) = 500" by (rule conjunct1)
  from bad have "snd (getItem gopos ?c widget_store) =
          record_call ''SELECT id, name, price FROM items WHERE id = $1'' [ArgString (Param ?c ''id'')] widget_store"
    by (rule conjunct2 [THEN conjunct1])
  with i w have 2: "issued (snd (getItem gopos ?c widget_store)) =
       [(''SELECT id, name, price FROM items WHERE id = $1'', [ArgString ''abc''])]"
    by (simp add: record_call_def)
  from bad have 3: "code (fst (deleteItem gopos ?c widget_store)) = 500"
    by (rule conjunct2 [THEN conjunct2, THEN conjunct1])
  from upd have 4: "code (fst (updateItem gopos ?c widget_store)) = 500" by (rule conjunct1)
  from upd have "snd (updateItem gopos ?c widget_store) =
               record_call ''UPDATE items SET name = $1, price = $2 WHERE id = $3''
                 [ArgString (Name ?item), ArgInt (Price ?item), ArgString (Param ?c ''id'')] widget_store"
    by (rule conjunct2)
  with i w have 5: "issued (snd (updateItem gopos ?c widget_store)) =
       [(''UPDATE items SET name = $1, price = $2 WHERE id = $3'',
         [ArgString ''Widget2'', ArgInt 150, ArgString ''abc''])]"
    by (simp add: record_call_def)
  from p b 1 2 3 4 5 show ?thesis by (intro conjI)
qed

text \<open>
  The claim as it stands covers every \<open>PUT\<close> with such an id, and fails for one whose
  body does not bind: the handler binds the body first, answers 400 and issues no
  statement.
\<close>

theorem bad_id_bad_body_counterexample:
  "ParseInt ''abc'' = None
   \<and> code (fst (updateItem gopos (with_id ''abc'' no_body) widget_store)) = 400
   \<and> issued (snd (updateItem gopos (with_id ''abc'' no_body) widget_store)) = []"
  by code_simp

subsection \<open>Create: the id of the new item\<close>

lemma bad_id_field_fails:
  assumes "(k, v) \<in> set kvs" "lookup_field k = Some F_ID" "v \<noteq> JNull"
    "\<forall>lit. v = JNumber lit \<longrightarrow> ParseInt lit = None"
  shows "\<exists>e. ShouldBindJSON (Decoded (JObject kvs)) it = Inl e"
proof -
  from store_int_Inl [OF assms(3,4)] obtain e0 where "store_int ''id'' v = Inl e0" by blast
  then have "\<And>it. \<exists>e. store_field F_ID v it = Inl e" by simp
  from decode_object_sticky [OF assms(1,2) this] show ?thesis
    by (simp add: ShouldBindJSON_def)
qed

text \<open>
  C10 (as amended). For \<open>POST /items\<close> bodies that bind, the id of the body is ignored:
  two bodies that bind to the same name and price, whatever ids they carry, get the
  same response and leave the same state, on every handle; the id of the 201 response
  is the one the \<open>INSERT ... RETURNING id\<close> returned; and the statement the reference
  store receives has the name and the price as its only arguments. An \<open>id\<close> that is
  neither \<open>null\<close> nor the literal of a 64-bit integer is not ignored: the body does not
  bind, the answer is 400, and no statement is issued.
\<close>

theorem createItem_id_from_store:
  "(ShouldBindJSON (reqbody c) zero_Item = Inr item \<and> ShouldBindJSON (reqbody c') zero_Item = Inr item'
      \<and> Name item = Name item' \<and> Price item = Price item' \<longrightarrow>
        createItem g c s = createItem g c' s)
   \<and> (ShouldBindJSON (reqbody c) zero_Item = Inr item
      \<and> fst (QueryRowID (db g) ''INSERT INTO items (name, price) VALUES ($1, $2) RETURNING id''
               [ArgString (Name item), ArgInt (Price item)] s) = Inr i \<longrightarrow>
        fst (createItem g c s) =
          JSON StatusCreated (marshal_Item \<lparr>ID = i, Name = Name item, Price = Price item\<rparr>))
   \<and> (ShouldBindJSON (reqbody c) zero_Item = Inr item \<longrightarrow>
        issued (snd (createItem gopos c st)) =
          issued st @ [(''INSERT INTO items (name, price) VALUES ($1, $2) RETURNING id'',
                        [ArgString (Name item), ArgInt (Price item)])])
   \<and> (reqbody c = Decoded (JObject kvs) \<and> (k, v) \<in> set kvs \<and> lookup_field k = Some F_ID
        \<and> v \<noteq> JNull \<and> (\<forall>lit. v = JNumber lit \<longrightarrow> ParseInt lit = None) \<longrightarrow>
      code (fst (createItem g c s)) = StatusBadRequest \<and> snd (createItem g c s) = s)"
proof (intro conjI impI)
  assume "ShouldBindJSON (reqbody c) zero_Item = Inr item \<and> ShouldBindJSON (reqbody c') zero_Item = Inr item'
      \<and> Name item = Name item' \<and> Price item = Price item'"
  then show "createItem g c s = createItem g c' s"
    by (auto simp: createItem_def marshal_Item_def split: prod.splits sum.splits)
next
  assume "ShouldBindJSON (reqbody c) zero_Item = Inr item
      \<and> fst (QueryRowID (db g) ''INSERT INTO items (name, price) VALUES ($1, $2) RETURNING id''
               [ArgString (Name item), ArgInt (Price item)] s) = Inr i"
  then show "fst (createItem g c s) =
          JSON StatusCreated (marshal_Item \<lparr>ID = i, Name = Name item, Price = Price item\<rparr>)"
    by (auto simp: createItem_def marshal_Item_def split: prod.splits sum.splits)
next
  assume "ShouldBindJSON (reqbody c) zero_Item = Inr item"
  then show "issued (snd (createItem gopos c st)) =
          issued st @ [(''INSERT INTO items (name, price) VALUES ($1, $2) RETURNING id'',
                        [ArgString (Name item), ArgInt (Price item)])]"
    by (cases "mode st")
       (simp_all add: createItem_def gopos_def newGpos_def pg_def pg_QueryRowID_def record_call_def)
next
  assume a: "reqbody c = Decoded (JObject kvs) \<and> (k, v) \<in> set kvs \<and> lookup_field k = Some F_ID
        \<and> v \<noteq> JNull \<and> (\<forall>lit. v = JNumber lit \<longrightarrow> ParseInt lit = None)"
  then obtain e' where "ShouldBindJSON (reqbody c) zero_Item = Inl e'"
    using bad_id_field_fails [of k v kvs zero_Item] by auto
  then show "code (fst (createItem g c s)) = StatusBadRequest" "snd (createItem g c s) = s"
    by (simp_all add: createItem_def)
qed

theorem createItem_id_from_store_witness:
  "ShouldBindJSON (reqbody (no_params widget99_body)) zero_Item = Inr \<lparr>ID = 99, Name = ''Widget'', Price = 100\<rparr>
   \<and> ShouldBindJSON (reqbody (no_params widget_body)) zero_Item = Inr \<lparr>ID = 0, Name = ''Widget'', Price = 100\<rparr>
   \<and> createItem gopos (no_params widget99_body) widget_store = createItem gopos (no_params widget_body) widget_store
   \<and> fst (createItem gopos (no_params widget99_body) widget_store) =
       \<lparr>code = 201,
        payload = Some (JObject [(''id'', JNumber ''2''), (''name'', JString ''Widget''), (''price'', JNumber ''100'')])\<rparr>
   \<and> issued (snd (createItem gopos (no_params widget99_body) widget_store)) =
       [(''INSERT INTO items (name, price) VALUES ($1, $2) RETURNING id'', [ArgString ''Widget'', ArgInt 100])]
   \<and> reqbody (no_params widgetx_body) =
       Decoded (JObject [(''id'', JString ''x''), (''name'', JString ''Widget''), (''price'', JNumber ''100'')])
   \<and> lookup_field ''id'' = Some F_ID
   \<and> code (fst (createItem gopos (no_params widgetx_body) widget_store)) = 400
   \<and> snd (createItem gopos (no_params widgetx_body) widget_store) = widget_store"
proof -
  let ?c = "no_params widget99_body" and ?c' = "no_params widget_body"
  let ?item = "\<lparr>ID = 99, Name = ''Widget'', Price = 100\<rparr>" and ?item' = "\<lparr>ID = 0, Name = ''Widget'', Price = 100\<rparr>"
  let ?kvs = "[(''id'', JString ''x''), (''name'', JString ''Widget''), (''price'', JNumber ''100'')]"
  have b: "ShouldBindJSON (reqbody ?c) zero_Item = Inr ?item" by code_simp
  have b': "ShouldBindJSON (reqbody ?c') zero_Item = Inr ?item'" by code_simp
  have q: "fst (QueryRowID (db gopos) ''INSERT INTO items (name, price) VALUES ($1, $2) RETURNING id''
               [ArgString (Name ?item), ArgInt (Price ?item)] widget_store) = Inr 2"
    by code_simp
  have m: "JSON StatusCreated (marshal_Item \<lparr>ID = 2, Name = Name ?item, Price = Price ?item\<rparr>) =
       \<lparr>code = 201,
        payload = Some (JObject [(''id'', JNumber ''2''), (''name'', JString ''Widget''), (''price'', JNumber ''100'')])\<rparr>"
    by code_simp
  have w: "issued widget_store = []" by code_simp
  note t = createItem_id_from_store [where c = ?c and item = ?item and c' = ?c' and item' = ?item'
      and g = gopos and s = widget_store and i = 2 and st = widget_store]
  from t [THEN conjunct1] b b'
  have 1: "createItem gopos ?c widget_store = createItem gopos ?c' widget_store" by simp
  from t [THEN conjunct2, THEN conjunct1, THEN mp, OF conjI, OF b q]
  have "fst (createItem gopos ?c widget_store) =
      JSON StatusCreated (marshal_Item \<lparr>ID = 2, Name = Name ?item, Price = Price ?item\<rparr>)" .
  with m have 2: "fst (createItem gopos ?c widget_store) =
       \<lparr>code = 201,
        payload = Some (JObject [(''id'', JNumber ''2''), (''name'', JString ''Widget''), (''price'', JNumber ''100'')])\<rparr>"
    by simp
  from t [THEN conjunct2, THEN conjunct2, THEN conjunct1] b w
  have 3: "issued (snd (createItem gopos ?c widget_store)) =
       [(''INSERT INTO items (name, price) VALUES ($1, $2) RETURNING id'', [ArgString ''Widget'', ArgInt 100])]"
    by simp
  have r: "reqbody (no_params widgetx_body) = Decoded (JObject ?kvs)" by code_simp
  have l: "lookup_field ''id'' = Some F_ID" by code_simp
  have n: "(''id'', JString ''x'') \<in> set ?kvs" by simp
  from createItem_id_from_store [where c = "no_params widgetx_body" and kvs = ?kvs and k = "''id''"
      and v = "JString ''x''" and g = gopos and s = widget_store,
      THEN conjunct2, THEN conjunct2, THEN conjunct2] r l n
  have "code (fst (createItem gopos (no_params widgetx_body) widget_store)) = StatusBadRequest
      \<and> snd (createItem gopos (no_params widgetx_body) widget_store) = widget_store"
    by simp
  then have 4: "code (fst (createItem gopos (no_params widgetx_body) widget_store)) = 400"
    and 5: "snd (createItem gopos (no_params widgetx_body) widget_store) = widget_store"
    by (simp_all add: StatusBadRequest_def)
  from b b' 1 2 3 r l 4 5 show ?thesis by (intro conjI)
qed

text \<open>
  The claim as it stands, that for every \<open>POST /items\<close> any \<open>id\<close> of the body is ignored
  for row creation, fails for an id of the wrong type: with \<open>"id":"x"\<close> the answer is 400
  and no row is created, while the same body without the id is answered with 201 and
  creates the row.
\<close>

theorem body_id_wrong_type_counterexample:
  "code (fst (createItem gopos (no_params widgetx_body) empty_store)) = 400
   \<and> table (snd (createItem gopos (no_params widgetx_body) empty_store)) = []
   \<and> issued (snd (createItem gopos (no_params widgetx_body) empty_store)) = []
   \<and> code (fst (createItem gopos (no_params widget_body) empty_store)) = 201
   \<and> table (snd (createItem gopos (no_params widget_body) empty_store)) = [\<lparr>ID = 1, Name = ''Widget'', Price = 100\<rparr>]"
  by code_simp

end
